theory Spec2Isabelle
  imports Main "HOL-Library.Sublist"
begin

section \<open>The AI suggestion engine (src/components/AISuggestionEngine.ts)\<close>

text \<open>
  The module exports one asynchronous function, \<open>getAiSuggestions\<close>. It builds a prompt
  from the symptoms and the remedies, calls the generative-language SDK once, parses the
  answer with \<open>JSON.parse\<close> and keeps the abbreviations that belong to the remedies it was
  given. JavaScript strings are modelled as \<open>string\<close> (code units below 256); what the function
  does beyond returning a value (the outbound call, the console, a rejected or pending
  promise) is explicit in the model.
\<close>

subsection \<open>JavaScript values\<close>

text \<open>
  A JavaScript number: every finite double is \<open>m * 10 ^ e\<close> for some integers, which is
  also what a JSON number lexeme denotes. The function never looks at a number beyond its
  truthiness.
\<close>

datatype js_number = Decimal int int | Infinity bool | NaN

text \<open>
  What \<open>JSON.parse\<close> returns. An object is the list of its members in the order of the text;
  a later member with the same name overwrites an earlier one.
\<close>

datatype json =
    JNull
  | JBool bool
  | JNumber js_number
  | JString string
  | JArray "json list"
  | JObject "(string \<times> json) list"

text \<open>
  A value that can be thrown, or that a promise can be rejected with: an instance of
  \<open>Error\<close> or of a subclass (its \<open>name\<close> and \<open>message\<close>), \<open>undefined\<close>, or any other value.
\<close>

datatype js_thrown =
    ErrorInstance string string
  | Undefined
  | Plain json

text \<open>A promise is fulfilled with a value, rejected with a thrown value, or never settles.\<close>

datatype 'a promise = Fulfilled 'a | Rejected js_thrown | Pending

fun instanceof_Error :: "js_thrown \<Rightarrow> bool" where
  "instanceof_Error (ErrorInstance n m) = True"
| "instanceof_Error Undefined = False"
| "instanceof_Error (Plain v) = False"

text \<open>\<open>new Error(message)\<close>.\<close>

definition new_Error :: "string \<Rightarrow> js_thrown" where
  "new_Error message = ErrorInstance ''Error'' message"

text \<open>\<open>ToBoolean\<close>, as the condition of \<open>if\<close> and the left operand of \<open>&&\<close> apply it.\<close>

fun truthy :: "json \<Rightarrow> bool" where
  "truthy JNull = False"
| "truthy (JBool b) = b"
| "truthy (JNumber (Decimal m e)) = (m \<noteq> 0)"
| "truthy (JNumber (Infinity s)) = True"
| "truthy (JNumber NaN) = False"
| "truthy (JString s) = (s \<noteq> [])"
| "truthy (JArray xs) = True"
| "truthy (JObject kvs) = True"

fun typeof :: "json \<Rightarrow> string" where
  "typeof JNull = ''object''"
| "typeof (JBool b) = ''boolean''"
| "typeof (JNumber n) = ''number''"
| "typeof (JString s) = ''string''"
| "typeof (JArray xs) = ''object''"
| "typeof (JObject kvs) = ''object''"

text \<open>
  The members of a parsed object are listed in the order of the text. Reading a property
  finds the last member of that name, since \<open>JSON.parse\<close> lets a later duplicate overwrite
  an earlier one.
\<close>

definition object_get :: "(string \<times> json) list \<Rightarrow> string \<Rightarrow> json option" where
  "object_get members key = map_of (rev members) key"

text \<open>
  The property access \<open>result.remedies\<close>: a \<open>TypeError\<close> on \<open>null\<close>, the member's value on an
  object that has it, and \<open>undefined\<close> (\<open>None\<close>) on everything else, since neither a
  primitive's wrapper nor an array carries a property of that name.
\<close>

definition null_property_message :: string where
  \<open>null_property_message = ''Cannot read properties of null (reading 'remedies')''\<close>

fun get_remedies :: "json \<Rightarrow> js_thrown + json option" where
  "get_remedies JNull = Inl (ErrorInstance ''TypeError'' null_property_message)"
| "get_remedies (JObject members) = Inr (object_get members ''remedies'')"
| "get_remedies (JBool b) = Inr None"
| "get_remedies (JNumber n) = Inr None"
| "get_remedies (JString s) = Inr None"
| "get_remedies (JArray xs) = Inr None"

text \<open>\<open>Array.isArray\<close>, applied to a value that may be \<open>undefined\<close>.\<close>

fun Array_isArray :: "json option \<Rightarrow> bool" where
  "Array_isArray (Some (JArray xs)) = True"
| "Array_isArray v = False"

text \<open>The elements of a value that \<open>Array.isArray\<close> accepted.\<close>

fun array_elements :: "json option \<Rightarrow> json list" where
  "array_elements (Some (JArray xs)) = xs"
| "array_elements v = []"

text \<open>\<open>Set.prototype.has\<close> on a set of strings: only a string can be a member.\<close>

fun Set_has :: "string set \<Rightarrow> json \<Rightarrow> bool" where
  "Set_has S (JString s) = (s \<in> S)"
| "Set_has S v = False"

text \<open>\<open>Array.prototype.join\<close> on an array of strings.\<close>

fun join :: "string \<Rightarrow> string list \<Rightarrow> string" where
  "join sep [] = []"
| "join sep [x] = x"
| "join sep (x # y # ys) = x @ sep @ join sep (y # ys)"

text \<open>
  \<open>String.prototype.trim\<close>: white space and line terminators, at both ends. Among the code
  units that fit a \<open>char\<close> these are tab, line feed, vertical tab, form feed, carriage return,
  space and the no-break space U+00A0.
\<close>

definition is_white_space :: "char \<Rightarrow> bool" where
  "is_white_space c =
     (c = CHR 0x09 \<or> c = CHR 0x0A \<or> c = CHR 0x0B \<or> c = CHR 0x0C \<or> c = CHR 0x0D \<or> c = CHR 0x20 \<or>
      c = CHR 0xA0)"

definition trim :: "string \<Rightarrow> string" where
  "trim s = rev (dropWhile is_white_space (rev (dropWhile is_white_space s)))"

subsection \<open>A JSON parser\<close>

text \<open>
  \<open>getAiSuggestions\<close> takes the runtime's \<open>JSON.parse\<close> as a parameter, so what is proved
  about it holds for any parser. \<open>json_parse\<close> is a parser of the JSON grammar on ASCII
  text, with which the function is evaluated on concrete responses.
\<close>

text \<open>The four white-space characters of the JSON grammar.\<close>

definition is_json_ws :: "char \<Rightarrow> bool" where
  "is_json_ws c = (c = CHR 0x20 \<or> c = CHR 0x09 \<or> c = CHR 0x0A \<or> c = CHR 0x0D)"

definition skip_ws :: "string \<Rightarrow> string" where
  "skip_ws s = dropWhile is_json_ws s"

definition is_digit :: "char \<Rightarrow> bool" where
  "is_digit c = (48 \<le> (of_char c :: nat) \<and> (of_char c :: nat) \<le> 57)"

definition digits_value :: "string \<Rightarrow> nat" where
  "digits_value ds = foldl (\<lambda>n c. 10 * n + (of_char c - 48)) 0 ds"

definition hex_value :: "char \<Rightarrow> nat option" where
  "hex_value c =
     (let k = (of_char c :: nat) in
      if 48 \<le> k \<and> k \<le> 57 then Some (k - 48)
      else if 65 \<le> k \<and> k \<le> 70 then Some (k - 55)
      else if 97 \<le> k \<and> k \<le> 102 then Some (k - 87)
      else None)"

text \<open>A four-digit hexadecimal escape, for the code units that are ASCII characters.\<close>

definition hex4 :: "string \<Rightarrow> char option" where
  "hex4 hs =
     (case map hex_value hs of
        [Some a, Some b, Some c, Some d] \<Rightarrow>
          if a = 0 \<and> b = 0 \<and> c < 8 then Some (char_of (16 * c + d)) else None
      | _ \<Rightarrow> None)"

definition simple_escape :: "char \<Rightarrow> char option" where
  "simple_escape e =
     (if e = CHR 0x22 then Some (CHR 0x22)
      else if e = CHR 0x5C then Some (CHR 0x5C)
      else if e = CHR ''/'' then Some (CHR ''/'')
      else if e = CHR ''b'' then Some (CHR 0x08)
      else if e = CHR ''f'' then Some (CHR 0x0C)
      else if e = CHR ''n'' then Some (CHR 0x0A)
      else if e = CHR ''r'' then Some (CHR 0x0D)
      else if e = CHR ''t'' then Some (CHR 0x09)
      else None)"

text \<open>The characters of a string literal, after its opening quotation mark.\<close>

fun parse_string_chars :: "string \<Rightarrow> (string \<times> string) option" where
  "parse_string_chars [] = None"
| "parse_string_chars (c # cs) =
     (if c = CHR 0x22 then Some ([], cs)
      else if c = CHR 0x5C then
        (case cs of
           [] \<Rightarrow> None
         | e # r \<Rightarrow>
             if e = CHR ''u'' then
               (case hex4 (take 4 r) of
                  None \<Rightarrow> None
                | Some ch \<Rightarrow>
                    (case parse_string_chars (drop 4 r) of
                       None \<Rightarrow> None
                     | Some (s, rest) \<Rightarrow> Some (ch # s, rest)))
             else
               (case simple_escape e of
                  None \<Rightarrow> None
                | Some ch \<Rightarrow>
                    (case parse_string_chars r of
                       None \<Rightarrow> None
                     | Some (s, rest) \<Rightarrow> Some (ch # s, rest))))
      else if (of_char c :: nat) < 32 then None
      else
        (case parse_string_chars cs of
           None \<Rightarrow> None
         | Some (s, rest) \<Rightarrow> Some (c # s, rest)))"

text \<open>
  A number lexeme: an optional minus sign, an integer part with no leading zero, an
  optional fraction and an optional exponent. The value keeps the exact decimal.
\<close>

definition parse_number :: "string \<Rightarrow> (js_number \<times> string) option" where
  "parse_number s =
     (let negative = (take 1 s = ''-'');
          s1 = (if negative then drop 1 s else s);
          ds = takeWhile is_digit s1;
          s2 = dropWhile is_digit s1;
          has_frac = (take 1 s2 = ''.'');
          fs = (if has_frac then takeWhile is_digit (drop 1 s2) else []);
          s3 = (if has_frac then dropWhile is_digit (drop 1 s2) else s2);
          has_exp = (take 1 s3 = ''e'' \<or> take 1 s3 = ''E'');
          s4 = (if has_exp then drop 1 s3 else s3);
          exp_negative = (has_exp \<and> take 1 s4 = ''-'');
          s5 = (if has_exp \<and> (take 1 s4 = ''-'' \<or> take 1 s4 = ''+'') then drop 1 s4 else s4);
          es = (if has_exp then takeWhile is_digit s5 else []);
          s6 = (if has_exp then dropWhile is_digit s5 else s5);
          m = int (digits_value (ds @ fs));
          e = int (digits_value es)
      in if ds = [] \<or> (length ds > 1 \<and> take 1 ds = ''0'') \<or> (has_frac \<and> fs = []) \<or> (has_exp \<and> es = [])
         then None
         else Some (Decimal (if negative then - m else m)
                      ((if exp_negative then - e else e) - int (length fs)), s6))"

text \<open>
  Values, the elements of an array after its bracket and the members of an object after
  its brace. The first argument bounds the number of nested calls; the length of the text
  is enough for any text.
\<close>

fun parse_value :: "nat \<Rightarrow> string \<Rightarrow> (json \<times> string) option"
and parse_elements :: "nat \<Rightarrow> string \<Rightarrow> (json list \<times> string) option"
and parse_members :: "nat \<Rightarrow> string \<Rightarrow> ((string \<times> json) list \<times> string) option" where
  "parse_value 0 s = None"
| "parse_value (Suc n) s =
     (case skip_ws s of
        [] \<Rightarrow> None
      | c # r \<Rightarrow>
          if c = CHR ''{'' then
            (if take 1 (skip_ws r) = ''}'' then Some (JObject [], drop 1 (skip_ws r))
             else (case parse_members n r of
                     None \<Rightarrow> None
                   | Some (kvs, rest) \<Rightarrow> Some (JObject kvs, rest)))
          else if c = CHR ''['' then
            (if take 1 (skip_ws r) = '']'' then Some (JArray [], drop 1 (skip_ws r))
             else (case parse_elements n r of
                     None \<Rightarrow> None
                   | Some (vs, rest) \<Rightarrow> Some (JArray vs, rest)))
          else if c = CHR 0x22 then
            (case parse_string_chars r of
               None \<Rightarrow> None
             | Some (str, rest) \<Rightarrow> Some (JString str, rest))
          else if take 4 (c # r) = ''null'' then Some (JNull, drop 4 (c # r))
          else if take 4 (c # r) = ''true'' then Some (JBool True, drop 4 (c # r))
          else if take 5 (c # r) = ''false'' then Some (JBool False, drop 5 (c # r))
          else
            (case parse_number (c # r) of
               None \<Rightarrow> None
             | Some (num, rest) \<Rightarrow> Some (JNumber num, rest)))"
| "parse_elements 0 s = None"
| "parse_elements (Suc n) s =
     (case parse_value n s of
        None \<Rightarrow> None
      | Some (v, r) \<Rightarrow>
          (case skip_ws r of
             [] \<Rightarrow> None
           | c # r' \<Rightarrow>
               if c = CHR '','' then
                 (case parse_elements n r' of
                    None \<Rightarrow> None
                  | Some (vs, rest) \<Rightarrow> Some (v # vs, rest))
               else if c = CHR '']'' then Some ([v], r')
               else None))"
| "parse_members 0 s = None"
| "parse_members (Suc n) s =
     (case skip_ws s of
        [] \<Rightarrow> None
      | q # r \<Rightarrow>
          if q \<noteq> CHR 0x22 then None
          else
            (case parse_string_chars r of
               None \<Rightarrow> None
             | Some (key, r1) \<Rightarrow>
                 (case skip_ws r1 of
                    [] \<Rightarrow> None
                  | colon # r2 \<Rightarrow>
                      if colon \<noteq> CHR '':'' then None
                      else
                        (case parse_value n r2 of
                           None \<Rightarrow> None
                         | Some (v, r3) \<Rightarrow>
                             (case skip_ws r3 of
                                [] \<Rightarrow> None
                              | c # r4 \<Rightarrow>
                                  if c = CHR '','' then
                                    (case parse_members n r4 of
                                       None \<Rightarrow> None
                                     | Some (kvs, rest) \<Rightarrow> Some ((key, v) # kvs, rest))
                                  else if c = CHR ''}'' then Some ([(key, v)], r4)
                                  else None)))))"

text \<open>The whole text must be one value, with white space around it at most.\<close>

definition json_syntax_error :: string where
  "json_syntax_error = ''Unexpected token in JSON''"

definition json_parse :: "string \<Rightarrow> string + json" where
  "json_parse s =
     (case parse_value (Suc (length s)) s of
        None \<Rightarrow> Inl json_syntax_error
      | Some (v, rest) \<Rightarrow> if skip_ws rest = [] then Inr v else Inl json_syntax_error)"

subsection \<open>The SDK: requests, responses, the client\<close>

datatype Type = OBJECT | ARRAY | STRING

datatype Schema =
  Schema (schema_type: Type) (description: "string option")
         (properties: "(string \<times> Schema) list") (items: "Schema option")
         (required: "string list")

record GenerateContentConfig =
  responseMimeType :: string
  responseSchema :: Schema

record GenerateContentParameters =
  model :: string
  contents :: string
  config :: GenerateContentConfig

text \<open>
  The response's \<open>text\<close> accessor (\<open>response_text\<close> here, \<open>text\<close> being a keyword) is a string, or
  \<open>undefined\<close> when the answer has no text part.
\<close>

record GenerateContentResponse =
  response_text :: "string option"

text \<open>
  A client is what \<open>ai.models.generateContent\<close> answers to a request. The service is opaque:
  the model is given its answer.
\<close>

type_synonym GoogleGenAI = "GenerateContentParameters \<Rightarrow> GenerateContentResponse promise"

subsection \<open>The world: outbound calls and the console\<close>

datatype console_entry =
    Console_warn string
  | Console_error string js_thrown

record world =
  network :: "GenerateContentParameters list"
  console :: "console_entry list"

definition console_warn :: "string \<Rightarrow> world \<Rightarrow> world" where
  "console_warn msg w = w\<lparr>console := console w @ [Console_warn msg]\<rparr>"

definition console_error :: "string \<Rightarrow> js_thrown \<Rightarrow> world \<Rightarrow> world" where
  "console_error msg e w = w\<lparr>console := console w @ [Console_error msg e]\<rparr>"

text \<open>One call of \<open>ai.models.generateContent\<close>: the request goes out, the client answers.\<close>

definition generateContent ::
  "GoogleGenAI \<Rightarrow> GenerateContentParameters \<Rightarrow> world \<Rightarrow> world \<times> GenerateContentResponse promise" where
  "generateContent client req w = (w\<lparr>network := network w @ [req]\<rparr>, client req)"

subsection \<open>The module\<close>

text \<open>
  Modelled from the spec: the type \<open>Remedy\<close> is declared in \<open>src/types\<close>, which is not among
  the sources. The function reads two fields of it, \<open>name\<close> and \<open>abbreviation\<close>, which the
  specification gives as a human-readable name and a string identifier. The second field is
  written \<open>abbreviation'\<close> here, \<open>abbreviation\<close> being a keyword.
\<close>

record Remedy =
  name :: string
  abbreviation' :: string

definition missing_key_warning :: string where
  \<open>missing_key_warning =
     ''Gemini API key not found. AI features will be disabled. Please set VITE_API_KEY in your .env file.''\<close>

text \<open>
  Lines 5 to 12: \<open>ai\<close> is a client when \<open>API_KEY\<close> is truthy (defined and not empty), and stays
  \<open>null\<close> otherwise. The SDK's constructor is a parameter.
\<close>

definition module_init ::
  "(string \<Rightarrow> GoogleGenAI) \<Rightarrow> string option \<Rightarrow> world \<Rightarrow> world \<times> GoogleGenAI option" where
  "module_init new_GoogleGenAI API_KEY w =
     (case API_KEY of
        None \<Rightarrow> (console_warn missing_key_warning w, None)
      | Some k \<Rightarrow>
          if k \<noteq> [] then (w, Some (new_GoogleGenAI k))
          else (console_warn missing_key_warning w, None))"

definition not_configured_message :: string where
  \<open>not_configured_message =
     ''Gemini API key is not configured. Please set VITE_API_KEY in a .env.local file and restart the server.''\<close>

definition service_failure_message :: string where
  \<open>service_failure_message =
     ''Failed to get suggestions from AI. It's possible the API key is invalid or the service is unavailable.''\<close>

definition unknown_error_message :: string where
  \<open>unknown_error_message = ''An unknown error occurred while fetching AI suggestions.''\<close>

definition remedyListForPrompt :: "Remedy list \<Rightarrow> string" where
  "remedyListForPrompt remedies =
     join ''\<newline>'' (map (\<lambda>r. ''- '' @ name r @ '' ('' @ abbreviation' r @ '')'') remedies)"

definition prompt :: "string \<Rightarrow> Remedy list \<Rightarrow> string" where
  \<open>prompt symptoms remedies =
     ''\<newline>    You are an expert in homeopathy. Based on the following symptoms, suggest the most relevant remedies.\<newline>    \<newline>    Symptoms: "''
     @ symptoms @
     ''"\<newline>    \<newline>    Refer ONLY to the following list of available remedies and provide your answer as a JSON object with a single key "remedies" which contains an array of the remedy abbreviations. For example: {"remedies": ["ARN", "NUX-V"]}.\<newline>    If no remedies seem appropriate, return an empty array within the JSON object. Do not include any explanation.\<newline>\<newline>    Available Remedies:\<newline>    ''
     @ remedyListForPrompt remedies @
     ''\<newline>  ''\<close>

definition request :: "string \<Rightarrow> GenerateContentParameters" where
  "request p =
     \<lparr>model = ''gemini-2.5-flash'',
      contents = p,
      config =
        \<lparr>responseMimeType = ''application/json'',
         responseSchema =
           Schema OBJECT None
             [(''remedies'',
               Schema ARRAY (Some ''An array of suggested remedy abbreviations.'') []
                 (Some (Schema STRING (Some ''The abbreviation of a suggested remedy.'') [] None []))
                 [])]
             None [''remedies'']\<rparr>\<rparr>"

text \<open>Lines 68 to 74: the catch block logs the caught value and throws a new \<open>Error\<close>.\<close>

definition catch_block :: "js_thrown \<Rightarrow> world \<Rightarrow> world \<times> json list promise" where
  "catch_block error w =
     (console_error ''Error fetching AI suggestions:'' error w,
      if instanceof_Error error then Rejected (new_Error service_failure_message)
      else Rejected (new_Error unknown_error_message))"

text \<open>
  \<open>response.text.trim()\<close> on a response without text is a \<open>TypeError\<close>. Its message is the
  engine's; this is V8's wording, as for \<open>null_property_message\<close>.
\<close>

definition undefined_trim_message :: string where
  \<open>undefined_trim_message = ''Cannot read properties of undefined (reading 'trim')''\<close>

text \<open>
  Lines 56 to 66, inside the \<open>try\<close>: everything that throws there lands in the catch block.
  \<open>JSON_parse\<close> is the runtime's \<open>JSON.parse\<close>: \<open>Inl\<close> is the message of the \<open>SyntaxError\<close> it
  throws. The array that \<open>filter\<close> returns holds the elements it kept.
\<close>

definition process_response ::
  "(string \<Rightarrow> string + json) \<Rightarrow> Remedy list \<Rightarrow> GenerateContentResponse \<Rightarrow> world \<Rightarrow>
     world \<times> json list promise" where
  "process_response JSON_parse remedies response w =
     (case response_text response of
        None \<Rightarrow> catch_block (ErrorInstance ''TypeError'' undefined_trim_message) w
      | Some t \<Rightarrow>
          let jsonString = trim t in
          (case JSON_parse jsonString of
             Inl msg \<Rightarrow> catch_block (ErrorInstance ''SyntaxError'' msg) w
           | Inr result \<Rightarrow>
               if truthy result then
                 (case get_remedies result of
                    Inl e \<Rightarrow> catch_block e w
                  | Inr v \<Rightarrow>
                      if Array_isArray v then
                        let validAbbreviations = set (map abbreviation' remedies) in
                        (w, Fulfilled
                           (filter (\<lambda>abbr. typeof abbr = ''string'' \<and> Set_has validAbbreviations abbr)
                              (array_elements v)))
                      else (w, Fulfilled []))
               else (w, Fulfilled [])))"

text \<open>
  \<open>getAiSuggestions\<close>, with the module's \<open>ai\<close> and the runtime's \<open>JSON.parse\<close> as parameters.
  The promise it returns is rejected where the source throws.
\<close>

definition getAiSuggestions ::
  "GoogleGenAI option \<Rightarrow> (string \<Rightarrow> string + json) \<Rightarrow> string \<Rightarrow> Remedy list \<Rightarrow> world \<Rightarrow>
     world \<times> json list promise" where
  "getAiSuggestions ai JSON_parse symptoms remedies w =
     (case ai of
        None \<Rightarrow> (w, Rejected (new_Error not_configured_message))
      | Some client \<Rightarrow>
          (case generateContent client (request (prompt symptoms remedies)) w of
             (w', Pending) \<Rightarrow> (w', Pending)
           | (w', Rejected error) \<Rightarrow> catch_block error w'
           | (w', Fulfilled response) \<Rightarrow> process_response JSON_parse remedies response w'))"

subsection \<open>The vocabulary of the specification\<close>

text \<open>
  The source throws plain \<open>Error\<close> objects, told apart by their messages. The specification
  names them: a \<open>ConfigurationError\<close> is the error of line 16, a \<open>SuggestionServiceError\<close>
  is what the catch block throws.
\<close>

definition ConfigurationError :: js_thrown where
  "ConfigurationError = new_Error not_configured_message"

definition is_SuggestionServiceError :: "js_thrown \<Rightarrow> bool" where
  "is_SuggestionServiceError e =
     (e = new_Error service_failure_message \<or> e = new_Error unknown_error_message)"

text \<open>The identifier set of the candidates, and the values that are one of its strings.\<close>

definition identifier_set :: "Remedy list \<Rightarrow> string set" where
  "identifier_set candidates = abbreviation' ` set candidates"

fun is_identifier_of :: "Remedy list \<Rightarrow> json \<Rightarrow> bool" where
  "is_identifier_of candidates (JString s) = (s \<in> identifier_set candidates)"
| "is_identifier_of candidates v = False"

text \<open>A parsed value that is an object containing an array under the key \<open>remedies\<close>.\<close>

fun has_remedies_array :: "json \<Rightarrow> bool" where
  "has_remedies_array (JObject members) =
     (case object_get members ''remedies'' of Some (JArray xs) \<Rightarrow> True | _ \<Rightarrow> False)"
| "has_remedies_array v = False"

text \<open>The line of one candidate in the prompt, after the dash: \<open>name (identifier)\<close>.\<close>

definition candidate_line :: "Remedy \<Rightarrow> string" where
  "candidate_line r = name r @ '' ('' @ abbreviation' r @ '')''"

subsection \<open>Concrete clients and data\<close>

text \<open>A client that answers every request with the same text, and one that always rejects.\<close>

definition answering :: "string \<Rightarrow> GoogleGenAI" where
  "answering t req = Fulfilled \<lparr>response_text = Some t\<rparr>"

definition rejecting :: "js_thrown \<Rightarrow> GoogleGenAI" where
  "rejecting e req = Rejected e"

definition fresh_world :: world where
  "fresh_world = \<lparr>network = [], console = []\<rparr>"

definition three_remedies :: "Remedy list" where
  "three_remedies =
     [\<lparr>name = ''Arnica montana'', abbreviation' = ''ARN''\<rparr>,
      \<lparr>name = ''Nux vomica'', abbreviation' = ''NUX-V''\<rparr>,
      \<lparr>name = ''Belladonna'', abbreviation' = ''BELL''\<rparr>]"

section \<open>Properties of the model\<close>

subsection \<open>Auxiliary facts\<close>

lemma kept_iff:
  "(typeof v = ''string'' \<and> Set_has (abbreviation' ` set remedies) v) = is_identifier_of remedies v"
  by (cases v) (simp_all add: identifier_set_def)

lemma getAiSuggestions_configured:
  "getAiSuggestions (Some client) JSON_parse symptoms remedies w =
     (let w' = w\<lparr>network := network w @ [request (prompt symptoms remedies)]\<rparr> in
      case client (request (prompt symptoms remedies)) of
        Pending \<Rightarrow> (w', Pending)
      | Rejected error \<Rightarrow> catch_block error w'
      | Fulfilled response \<Rightarrow> process_response JSON_parse remedies response w')"
  by (simp add: getAiSuggestions_def generateContent_def split: promise.splits)

lemma process_response_syntax_error:
  assumes "response_text response = Some t" and "JSON_parse (trim t) = Inl msg"
  shows "process_response JSON_parse remedies response w =
           catch_block (ErrorInstance ''SyntaxError'' msg) w"
  using assms by (simp add: process_response_def)

lemma process_response_array:
  assumes "response_text response = Some t"
    and "JSON_parse (trim t) = Inr (JObject members)"
    and "object_get members ''remedies'' = Some (JArray elements)"
  shows "process_response JSON_parse remedies response w =
           (w, Fulfilled (filter (is_identifier_of remedies) elements))"
  using assms by (simp add: process_response_def kept_iff)

lemma process_response_no_array:
  assumes "response_text response = Some t"
    and "JSON_parse (trim t) = Inr j"
    and "\<not> has_remedies_array j"
  shows "process_response JSON_parse remedies response w = (w, Fulfilled [])"
proof (cases j)
  case (JObject members)
  with assms(3) have "\<not> Array_isArray (object_get members ''remedies'')"
    by (cases "object_get members ''remedies''" rule: Array_isArray.cases) simp_all
  with assms(1,2) JObject show ?thesis
    by (simp add: process_response_def)
next
  case (JNumber n)
  with assms(1,2) show ?thesis
    by (cases n) (simp_all add: process_response_def)
qed (use assms(1,2) in \<open>simp_all add: process_response_def\<close>)

lemma snd_catch_block:
  "snd (catch_block e w) =
     Rejected (new_Error (if instanceof_Error e then service_failure_message else unknown_error_message))"
  by (simp add: catch_block_def)

lemma network_catch_block: "network (fst (catch_block e w)) = network w"
  by (simp add: catch_block_def console_error_def)

lemma network_process_response:
  "network (fst (process_response JSON_parse remedies response w)) = network w"
  by (simp add: process_response_def network_catch_block Let_def split: option.splits sum.splits)

lemma sublist_in_right: "sublist x b \<Longrightarrow> sublist x (a @ b)"
proof -
  assume "sublist x b"
  then obtain ps ss where "b = ps @ x @ ss" by (auto simp: sublist_def)
  then have "a @ b = (a @ ps) @ x @ ss" by simp
  then show ?thesis unfolding sublist_def by blast
qed

lemma sublist_in_left: "sublist x a \<Longrightarrow> sublist x (a @ b)"
proof -
  assume "sublist x a"
  then obtain ps ss where "a = ps @ x @ ss" by (auto simp: sublist_def)
  then have "a @ b = ps @ x @ (ss @ b)" by simp
  then show ?thesis unfolding sublist_def by blast
qed

lemma sublist_join_member: "x \<in> set ls \<Longrightarrow> sublist x (join sep ls)"
proof (induction sep ls rule: join.induct)
  case (1 sep)
  then show ?case by simp
next
  case (2 sep y)
  then show ?case by simp
next
  case (3 sep y z zs)
  show ?case
  proof (cases "x = y")
    case True
    then show ?thesis by simp
  next
    case False
    with 3 have "sublist x (join sep (z # zs))" by simp
    then have "sublist x ((y @ sep) @ join sep (z # zs))"
      by (rule sublist_in_right)
    then show ?thesis by simp
  qed
qed

lemma candidate_line_in_list:
  assumes "r \<in> set remedies"
  shows "sublist (candidate_line r) (remedyListForPrompt remedies)"
proof -
  let ?entry = "\<lambda>r. ''- '' @ name r @ '' ('' @ abbreviation' r @ '')''"
  from assms have "?entry r \<in> set (map ?entry remedies)" by simp
  then have "sublist (?entry r) (remedyListForPrompt remedies)"
    unfolding remedyListForPrompt_def by (rule sublist_join_member)
  moreover have "sublist (candidate_line r) (?entry r)"
    unfolding candidate_line_def by (rule sublist_in_right) simp
  ultimately show ?thesis by (rule sublist_order.order_trans [rotated])
qed

lemma prompt_parts:
  \<open>prompt symptoms remedies =
     ''\<newline>    You are an expert in homeopathy. Based on the following symptoms, suggest the most relevant remedies.\<newline>    \<newline>    ''
     @ (''Symptoms: "'' @ symptoms @ ''"'') @
     ''\<newline>    \<newline>    Refer ONLY to the following list of available remedies and ''
     @ ''provide your answer as a JSON object with a single key "remedies" which contains an array of the remedy abbreviations''
     @ ''. For example: {"remedies": ["ARN", "NUX-V"]}.\<newline>    ''
     @ ''If no remedies seem appropriate, return an empty array within the JSON object.''
     @ '' ''
     @ ''Do not include any explanation.''
     @ ''\<newline>\<newline>    ''
     @ (''Available Remedies:\<newline>    '' @ remedyListForPrompt remedies @ ''\<newline>  '')\<close>
  by (simp add: prompt_def)

lemma network_getAiSuggestions:
  "network (fst (getAiSuggestions (Some client) JSON_parse symptoms remedies w)) =
     network w @ [request (prompt symptoms remedies)]"
  by (simp add: getAiSuggestions_configured Let_def network_catch_block
      network_process_response split: promise.splits)

lemma snd_getAiSuggestions_fulfilled:
  assumes "client (request (prompt symptoms remedies)) = Fulfilled response"
  shows "snd (getAiSuggestions (Some client) JSON_parse symptoms remedies w) =
           snd (process_response JSON_parse remedies response
                  (w\<lparr>network := network w @ [request (prompt symptoms remedies)]\<rparr>))"
  using assms by (simp add: getAiSuggestions_configured Let_def)

lemma snd_getAiSuggestions_rejected:
  assumes "client (request (prompt symptoms remedies)) = Rejected e"
  shows "snd (getAiSuggestions (Some client) JSON_parse symptoms remedies w) =
           Rejected (new_Error (if instanceof_Error e then service_failure_message
                                else unknown_error_message))"
  using assms by (simp add: getAiSuggestions_configured Let_def snd_catch_block)

lemma messages_distinct:
  "not_configured_message \<noteq> service_failure_message"
  "not_configured_message \<noteq> unknown_error_message"
  "service_failure_message \<noteq> unknown_error_message"
  by (simp_all add: not_configured_message_def service_failure_message_def
      unknown_error_message_def)

lemma process_response_outcome:
  "snd (process_response JSON_parse remedies response w) = Pending \<Longrightarrow> False"
  "snd (process_response JSON_parse remedies response w) = Rejected x \<Longrightarrow>
     x = new_Error service_failure_message"
  by (auto simp: process_response_def catch_block_def Let_def get_remedies.simps
      split: option.splits sum.splits if_splits elim!: get_remedies.elims)

lemma is_identifier_of_Nil: "is_identifier_of [] v = False"
  by (cases v) (simp_all add: identifier_set_def)

lemma process_response_empty_candidates:
  "snd (process_response JSON_parse [] response w) = Fulfilled r \<Longrightarrow> r = []"
  by (auto simp: process_response_def catch_block_def Let_def is_identifier_of_Nil
      kept_iff [of _ "[]", simplified]
      split: option.splits sum.splits if_splits)

lemma count_list_filter:
  "count_list (filter P xs) x = (if P x then count_list xs x else 0)"
  by (induction xs) auto

lemma remedyListForPrompt_lines:
  "remedyListForPrompt remedies =
     join ''\<newline>'' (map (\<lambda>r. ''- '' @ candidate_line r) remedies)"
  by (simp add: remedyListForPrompt_def candidate_line_def)

lemma getAiSuggestions_outcome:
  assumes "snd (getAiSuggestions ai JSON_parse symptoms remedies w) = Rejected x"
  shows "x = new_Error not_configured_message \<or> x = new_Error service_failure_message \<or>
         x = new_Error unknown_error_message"
proof (cases ai)
  case None
  with assms show ?thesis by (simp add: getAiSuggestions_def)
next
  case (Some client)
  show ?thesis
  proof (cases "client (request (prompt symptoms remedies))")
    case (Fulfilled response)
    with assms Some show ?thesis
      by (auto simp: snd_getAiSuggestions_fulfilled dest: process_response_outcome(2))
  next
    case (Rejected e)
    with assms Some show ?thesis
      by (auto simp: snd_getAiSuggestions_rejected split: if_splits)
  next
    case Pending
    with assms Some show ?thesis
      by (simp add: getAiSuggestions_configured Let_def)
  qed
qed

subsection \<open>The claims\<close>

text \<open>
  C1, as stated, fails. When the service answers with the text \<open>not json\<close>, \<open>JSON.parse\<close>
  throws inside the \<open>try\<close>, the catch block takes the \<open>SyntaxError\<close>, and the call is
  rejected with the service-failure \<open>Error\<close>: there is no empty result.
\<close>

theorem invalid_json_counterexample:
  \<open>json_parse (trim ''not json'') = Inl json_syntax_error \<and>
   snd (getAiSuggestions (Some (answering ''not json'')) json_parse ''headache'' three_remedies
          fresh_world) = Rejected (new_Error service_failure_message) \<and>
   snd (getAiSuggestions (Some (answering ''not json'')) json_parse ''headache'' three_remedies
          fresh_world) \<noteq> Fulfilled []\<close>
proof -
  have p: \<open>json_parse (trim ''not json'') = Inl json_syntax_error\<close>
    by code_simp
  have a: \<open>answering ''not json'' (request (prompt ''headache'' three_remedies)) =
             Fulfilled \<lparr>response_text = Some ''not json''\<rparr>\<close>
    by (simp add: answering_def)
  show ?thesis
    using p a
    by (simp add: snd_getAiSuggestions_fulfilled [where client = \<open>answering ''not json''\<close>]
        process_response_syntax_error snd_catch_block)
qed

text \<open>
  C1, amended: for every call in which the service returns successfully but \<open>JSON.parse\<close>
  rejects the trimmed text, \<open>getAiSuggestions\<close> produces no result; the call is rejected with
  the same generic \<open>Error\<close> as a failure of the service call.
\<close>

theorem invalid_json_rejects:
  assumes "client (request (prompt symptoms remedies)) = Fulfilled response"
    and "response_text response = Some t"
    and "JSON_parse (trim t) = Inl msg"
  shows "snd (getAiSuggestions (Some client) JSON_parse symptoms remedies w) =
           Rejected (new_Error service_failure_message) \<and>
         is_SuggestionServiceError (new_Error service_failure_message)"
  using assms
  by (simp add: snd_getAiSuggestions_fulfilled process_response_syntax_error snd_catch_block
      is_SuggestionServiceError_def)

text \<open>C1, an instance of the amended claim: an answer cut off in the middle of the array.\<close>

theorem invalid_json_rejects_witness:
  \<open>answering ''{"remedies": ["ARN"'' (request (prompt ''headache'' three_remedies)) =
     Fulfilled \<lparr>response_text = Some ''{"remedies": ["ARN"''\<rparr> \<and>
   json_parse (trim ''{"remedies": ["ARN"'') = Inl json_syntax_error \<and>
   snd (getAiSuggestions (Some (answering ''{"remedies": ["ARN"'')) json_parse ''headache''
          three_remedies fresh_world) = Rejected (new_Error service_failure_message)\<close>
proof -
  have a: \<open>answering ''{"remedies": ["ARN"'' (request (prompt ''headache'' three_remedies)) =
     Fulfilled \<lparr>response_text = Some ''{"remedies": ["ARN"''\<rparr>\<close>
    by (simp add: answering_def)
  have t: \<open>response_text \<lparr>response_text = Some ''{"remedies": ["ARN"''\<rparr> =
     Some ''{"remedies": ["ARN"''\<close>
    by simp
  have p: \<open>json_parse (trim ''{"remedies": ["ARN"'') = Inl json_syntax_error\<close>
    by code_simp
  show ?thesis
    using invalid_json_rejects [where client = \<open>answering ''{"remedies": ["ARN"''\<close>
        and symptoms = \<open>''headache''\<close> and remedies = three_remedies
        and JSON_parse = json_parse and w = fresh_world, OF a t p] a p
    by simp
qed

text \<open>
  C2: when no credential was supplied at initialization (\<open>API_KEY\<close> undefined, or the empty
  string), \<open>ai\<close> is \<open>null\<close> and, for every symptoms string and every candidate list, the call
  is rejected with the \<open>ConfigurationError\<close> and leaves the world as it was: nothing was sent.
\<close>

theorem not_configured_fails_before_any_call:
  "getAiSuggestions (snd (module_init new_GoogleGenAI None w0)) JSON_parse symptoms remedies w =
     (w, Rejected ConfigurationError) \<and>
   getAiSuggestions (snd (module_init new_GoogleGenAI (Some []) w0)) JSON_parse symptoms remedies w =
     (w, Rejected ConfigurationError) \<and>
   ConfigurationError = new_Error not_configured_message \<and>
   network (fst (getAiSuggestions None JSON_parse symptoms remedies w)) = network w"
  by (simp add: module_init_def getAiSuggestions_def ConfigurationError_def)

text \<open>C2, an instance: no credential, and no request is on the network.\<close>

theorem not_configured_fails_before_any_call_witness:
  "getAiSuggestions (snd (module_init answering None fresh_world)) json_parse ''headache''
     three_remedies fresh_world = (fresh_world, Rejected ConfigurationError) \<and>
   network fresh_world = []"
  using not_configured_fails_before_any_call [where new_GoogleGenAI = answering
      and ?w0.0 = fresh_world and JSON_parse = json_parse and symptoms = "''headache''"
      and remedies = three_remedies and w = fresh_world]
  by (simp add: fresh_world_def)

text \<open>
  C3: for every call in which the response parses to an object whose \<open>remedies\<close> member is an
  array, the result is exactly the elements of that array that are strings of the identifier
  set of the candidates of this call, in the array's order; an empty array gives an empty
  result, and the call is not rejected.
\<close>

theorem result_is_filtered_array:
  assumes "client (request (prompt symptoms remedies)) = Fulfilled response"
    and "response_text response = Some t"
    and "JSON_parse (trim t) = Inr (JObject members)"
    and "object_get members ''remedies'' = Some (JArray elements)"
  shows "snd (getAiSuggestions (Some client) JSON_parse symptoms remedies w) =
           Fulfilled (filter (is_identifier_of remedies) elements) \<and>
         subseq (filter (is_identifier_of remedies) elements) elements \<and>
         (elements = [] \<longrightarrow>
            snd (getAiSuggestions (Some client) JSON_parse symptoms remedies w) = Fulfilled [])"
  using assms by (simp add: snd_getAiSuggestions_fulfilled process_response_array)

text \<open>
  C3, an instance: the candidates \<open>ARN\<close>, \<open>NUX-V\<close>, \<open>BELL\<close> and the returned array
  \<open>["ARN","FOO",42,"BELL"]\<close>.
\<close>

theorem result_is_filtered_array_witness:
  \<open>json_parse (trim ''{"remedies": ["ARN","FOO",42,"BELL"]}'') =
     Inr (JObject [(''remedies'',
            JArray [JString ''ARN'', JString ''FOO'', JNumber (Decimal 42 0), JString ''BELL''])]) \<and>
   snd (getAiSuggestions (Some (answering ''{"remedies": ["ARN","FOO",42,"BELL"]}'')) json_parse
          ''bruises'' three_remedies fresh_world) = Fulfilled [JString ''ARN'', JString ''BELL'']\<close>
proof -
  let ?members = \<open>[(''remedies'',
            JArray [JString ''ARN'', JString ''FOO'', JNumber (Decimal 42 0), JString ''BELL''])]\<close>
  have a: \<open>answering ''{"remedies": ["ARN","FOO",42,"BELL"]}''
             (request (prompt ''bruises'' three_remedies)) =
           Fulfilled \<lparr>response_text = Some ''{"remedies": ["ARN","FOO",42,"BELL"]}''\<rparr>\<close>
    by (simp add: answering_def)
  have t: \<open>response_text \<lparr>response_text = Some ''{"remedies": ["ARN","FOO",42,"BELL"]}''\<rparr> =
           Some ''{"remedies": ["ARN","FOO",42,"BELL"]}''\<close>
    by simp
  have p: \<open>json_parse (trim ''{"remedies": ["ARN","FOO",42,"BELL"]}'') = Inr (JObject ?members)\<close>
    by code_simp
  have g: \<open>object_get ?members ''remedies'' =
     Some (JArray [JString ''ARN'', JString ''FOO'', JNumber (Decimal 42 0), JString ''BELL''])\<close>
    by (simp add: object_get_def)
  show ?thesis
    using result_is_filtered_array [where
        client = \<open>answering ''{"remedies": ["ARN","FOO",42,"BELL"]}''\<close>
        and symptoms = \<open>''bruises''\<close> and remedies = three_remedies
        and JSON_parse = json_parse and w = fresh_world, OF a t p g] p
    by (simp add: three_remedies_def identifier_set_def)
qed

text \<open>
  C4: for every call in which the response parses as JSON but the parsed value is not an
  object with an array under \<open>remedies\<close> (it is not an object, or the member is missing, or
  the member is not an array), the result is the empty sequence and the call is not rejected.
\<close>

theorem wrong_shape_gives_empty_result:
  assumes "client (request (prompt symptoms remedies)) = Fulfilled response"
    and "response_text response = Some t"
    and "JSON_parse (trim t) = Inr j"
    and "\<not> has_remedies_array j"
  shows "snd (getAiSuggestions (Some client) JSON_parse symptoms remedies w) = Fulfilled []"
  using assms by (simp add: snd_getAiSuggestions_fulfilled process_response_no_array)

text \<open>C4, an instance: the member is a string, not an array.\<close>

theorem wrong_shape_gives_empty_result_witness:
  \<open>json_parse (trim ''{"remedies": "ARN"}'') = Inr (JObject [(''remedies'', JString ''ARN'')]) \<and>
   \<not> has_remedies_array (JObject [(''remedies'', JString ''ARN'')]) \<and>
   snd (getAiSuggestions (Some (answering ''{"remedies": "ARN"}'')) json_parse ''bruises''
          three_remedies fresh_world) = Fulfilled []\<close>
proof -
  have a: \<open>answering ''{"remedies": "ARN"}'' (request (prompt ''bruises'' three_remedies)) =
           Fulfilled \<lparr>response_text = Some ''{"remedies": "ARN"}''\<rparr>\<close>
    by (simp add: answering_def)
  have t: \<open>response_text \<lparr>response_text = Some ''{"remedies": "ARN"}''\<rparr> =
           Some ''{"remedies": "ARN"}''\<close>
    by simp
  have p: \<open>json_parse (trim ''{"remedies": "ARN"}'') =
           Inr (JObject [(''remedies'', JString ''ARN'')])\<close>
    by code_simp
  have n: \<open>\<not> has_remedies_array (JObject [(''remedies'', JString ''ARN'')])\<close>
    by (simp add: object_get_def)
  show ?thesis
    using wrong_shape_gives_empty_result [where client = \<open>answering ''{"remedies": "ARN"}''\<close>
        and symptoms = \<open>''bruises''\<close> and remedies = three_remedies
        and JSON_parse = json_parse and w = fresh_world, OF a t p n] p n
    by simp
qed

text \<open>
  C5: for every call in which the service invocation throws or rejects, the call is rejected
  with a \<open>SuggestionServiceError\<close>: a new \<open>Error\<close> whose message is fixed (the service-failure
  message for a caught \<open>Error\<close> instance, the unknown-error message otherwise). The result is
  never fulfilled, and it is the caught value only if that value already was this new
  \<open>Error\<close>.
\<close>

theorem service_failure_is_wrapped:
  assumes "client (request (prompt symptoms remedies)) = Rejected e"
  shows "snd (getAiSuggestions (Some client) JSON_parse symptoms remedies w) =
           Rejected (new_Error (if instanceof_Error e then service_failure_message
                                else unknown_error_message)) \<and>
         is_SuggestionServiceError
           (new_Error (if instanceof_Error e then service_failure_message
                       else unknown_error_message)) \<and>
         (\<forall>r. snd (getAiSuggestions (Some client) JSON_parse symptoms remedies w) \<noteq> Fulfilled r) \<and>
         (snd (getAiSuggestions (Some client) JSON_parse symptoms remedies w) = Rejected e \<longrightarrow>
            e = new_Error service_failure_message)"
  using assms
  by (cases e)
    (simp_all add: snd_getAiSuggestions_rejected is_SuggestionServiceError_def new_Error_def)

text \<open>C5, an instance: the SDK rejects with a rate-limit error.\<close>

theorem service_failure_is_wrapped_witness:
  "rejecting (ErrorInstance ''ApiError'' ''429 Too Many Requests'')
     (request (prompt ''headache'' three_remedies)) =
     Rejected (ErrorInstance ''ApiError'' ''429 Too Many Requests'') \<and>
   snd (getAiSuggestions (Some (rejecting (ErrorInstance ''ApiError'' ''429 Too Many Requests'')))
          json_parse ''headache'' three_remedies fresh_world) =
     Rejected (new_Error service_failure_message) \<and>
   snd (getAiSuggestions (Some (rejecting (ErrorInstance ''ApiError'' ''429 Too Many Requests'')))
          json_parse ''headache'' three_remedies fresh_world) \<noteq>
     Rejected (ErrorInstance ''ApiError'' ''429 Too Many Requests'')"
proof -
  have a: "rejecting (ErrorInstance ''ApiError'' ''429 Too Many Requests'')
     (request (prompt ''headache'' three_remedies)) =
     Rejected (ErrorInstance ''ApiError'' ''429 Too Many Requests'')"
    by (simp add: rejecting_def)
  show ?thesis
    using service_failure_is_wrapped [where
        client = "rejecting (ErrorInstance ''ApiError'' ''429 Too Many Requests'')"
        and symptoms = "''headache''" and remedies = three_remedies
        and JSON_parse = json_parse and w = fresh_world, OF a] a
    by (simp add: new_Error_def)
qed

text \<open>
  C6: the call sends one request whose contents are the prompt. The prompt embeds the symptoms
  verbatim between quotation marks; it ends with the candidate list, one entry
  \<open>- name (identifier)\<close> for each candidate, in order, separated by line feeds, so the line
  of every candidate occurs in it; and it contains the instructions to answer with a JSON
  object with the single key \<open>remedies\<close> holding an array of abbreviations, to return an empty
  array when no remedy is appropriate, and to give no explanation.
\<close>

theorem prompt_embeds_query_and_candidates:
  \<open>map contents
     (drop (length (network w))
        (network (fst (getAiSuggestions (Some client) JSON_parse symptoms remedies w)))) =
     [prompt symptoms remedies] \<and>
   sublist (''Symptoms: "'' @ symptoms @ ''"'') (prompt symptoms remedies) \<and>
   suffix (''Available Remedies:\<newline>    '' @
           join ''\<newline>'' (map (\<lambda>r. ''- '' @ candidate_line r) remedies) @ ''\<newline>  '')
     (prompt symptoms remedies) \<and>
   (\<forall>r \<in> set remedies. sublist (candidate_line r) (prompt symptoms remedies)) \<and>
   sublist ''provide your answer as a JSON object with a single key "remedies" which contains an array of the remedy abbreviations''
     (prompt symptoms remedies) \<and>
   sublist ''If no remedies seem appropriate, return an empty array within the JSON object.''
     (prompt symptoms remedies) \<and>
   sublist ''Do not include any explanation.'' (prompt symptoms remedies)\<close>
proof (intro conjI ballI)
  show \<open>map contents
     (drop (length (network w))
        (network (fst (getAiSuggestions (Some client) JSON_parse symptoms remedies w)))) =
     [prompt symptoms remedies]\<close>
    by (simp add: network_getAiSuggestions request_def)
  show \<open>sublist (''Symptoms: "'' @ symptoms @ ''"'') (prompt symptoms remedies)\<close>
    by (subst prompt_parts) (rule sublist_appendI)
  show \<open>suffix (''Available Remedies:\<newline>    '' @
           join ''\<newline>'' (map (\<lambda>r. ''- '' @ candidate_line r) remedies) @ ''\<newline>  '')
     (prompt symptoms remedies)\<close>
    unfolding remedyListForPrompt_lines [symmetric]
    by (subst prompt_parts)
      (rule suffix_appendI, rule suffix_appendI, rule suffix_appendI, rule suffix_appendI,
        rule suffix_appendI, rule suffix_appendI, rule suffix_appendI, rule suffix_appendI,
        rule suffix_appendI, rule suffix_order.refl)
  show \<open>sublist (candidate_line r) (prompt symptoms remedies)\<close> if "r \<in> set remedies" for r
  proof -
    have "sublist (candidate_line r) (remedyListForPrompt remedies)"
      using that by (rule candidate_line_in_list)
    then have \<open>sublist (candidate_line r)
        (''Available Remedies:\<newline>    '' @ remedyListForPrompt remedies @ ''\<newline>  '')\<close>
      by (intro sublist_in_right sublist_in_left)
    then show ?thesis
      by (subst prompt_parts)
        (rule sublist_in_right, rule sublist_in_right, rule sublist_in_right,
          rule sublist_in_right, rule sublist_in_right, rule sublist_in_right,
          rule sublist_in_right, rule sublist_in_right, rule sublist_in_right)
  qed
  show \<open>sublist ''provide your answer as a JSON object with a single key "remedies" which contains an array of the remedy abbreviations''
     (prompt symptoms remedies)\<close>
    by (subst prompt_parts)
      (rule sublist_in_right, rule sublist_in_right, rule sublist_appendI)
  show \<open>sublist ''If no remedies seem appropriate, return an empty array within the JSON object.''
     (prompt symptoms remedies)\<close>
    by (subst prompt_parts)
      (rule sublist_in_right, rule sublist_in_right, rule sublist_in_right,
        rule sublist_in_right, rule sublist_appendI)
  show \<open>sublist ''Do not include any explanation.'' (prompt symptoms remedies)\<close>
    by (subst prompt_parts)
      (rule sublist_in_right, rule sublist_in_right, rule sublist_in_right,
        rule sublist_in_right, rule sublist_in_right, rule sublist_in_right,
        rule sublist_appendI)
qed

text \<open>
  C6, an instance: three candidates, of which the first entry follows the template's
  indentation and the others start their line.
\<close>

theorem prompt_embeds_query_and_candidates_witness:
  \<open>map contents
     (network (fst (getAiSuggestions (Some (answering ''{"remedies": []}'')) json_parse
                      ''throbbing headache'' three_remedies fresh_world))) =
     [prompt ''throbbing headache'' three_remedies] \<and>
   sublist ''Symptoms: "throbbing headache"'' (prompt ''throbbing headache'' three_remedies) \<and>
   suffix ''Available Remedies:\<newline>    - Arnica montana (ARN)\<newline>- Nux vomica (NUX-V)\<newline>- Belladonna (BELL)\<newline>  ''
     (prompt ''throbbing headache'' three_remedies) \<and>
   sublist ''Nux vomica (NUX-V)'' (prompt ''throbbing headache'' three_remedies)\<close>
  using prompt_embeds_query_and_candidates [where client = \<open>answering ''{"remedies": []}''\<close>
      and JSON_parse = json_parse and symptoms = \<open>''throbbing headache''\<close>
      and remedies = three_remedies and w = fresh_world]
  by (simp add: three_remedies_def candidate_line_def fresh_world_def)

text \<open>
  C7: every invocation with a configured client makes exactly one outbound call, whatever
  the service answers: the network log grows by the one request. A second invocation with
  the same arguments sends the request again; nothing is cached.
\<close>

theorem exactly_one_outbound_call:
  "network (fst (getAiSuggestions (Some client) JSON_parse symptoms remedies w)) =
     network w @ [request (prompt symptoms remedies)] \<and>
   length (network (fst (getAiSuggestions (Some client) JSON_parse symptoms remedies w))) =
     Suc (length (network w)) \<and>
   network (fst (getAiSuggestions (Some client) JSON_parse symptoms remedies
                   (fst (getAiSuggestions (Some client) JSON_parse symptoms remedies w)))) =
     network w @ [request (prompt symptoms remedies), request (prompt symptoms remedies)]"
  by (simp add: network_getAiSuggestions)

text \<open>C7, an instance, where the service rejects the call.\<close>

theorem exactly_one_outbound_call_witness:
  "length (network (fst (getAiSuggestions (Some (rejecting Undefined)) json_parse ''headache''
                           three_remedies fresh_world))) = 1"
  using exactly_one_outbound_call [where client = "rejecting Undefined"
      and JSON_parse = json_parse and symptoms = "''headache''" and remedies = three_remedies
      and w = fresh_world]
  by (simp add: fresh_world_def)

text \<open>
  C8, as stated, fails: with no candidates and a response whose text is not JSON, the call is
  rejected and there is no empty result.
\<close>

theorem empty_candidates_counterexample:
  \<open>json_parse (trim ''I cannot suggest a remedy.'') = Inl json_syntax_error \<and>
   snd (getAiSuggestions (Some (answering ''I cannot suggest a remedy.'')) json_parse
          ''headache'' [] fresh_world) = Rejected (new_Error service_failure_message) \<and>
   snd (getAiSuggestions (Some (answering ''I cannot suggest a remedy.'')) json_parse
          ''headache'' [] fresh_world) \<noteq> Fulfilled []\<close>
proof -
  have p: \<open>json_parse (trim ''I cannot suggest a remedy.'') = Inl json_syntax_error\<close>
    by code_simp
  have a: \<open>answering ''I cannot suggest a remedy.'' (request (prompt ''headache'' [])) =
             Fulfilled \<lparr>response_text = Some ''I cannot suggest a remedy.''\<rparr>\<close>
    by (simp add: answering_def)
  show ?thesis
    using p a
    by (simp add: snd_getAiSuggestions_fulfilled
        [where client = \<open>answering ''I cannot suggest a remedy.''\<close>]
        process_response_syntax_error snd_catch_block)
qed

text \<open>
  C8, amended: for every call with an empty candidates list in which the response text parses
  as JSON, the result is the empty sequence whatever the parsed value contains; and no call
  with an empty candidates list is ever fulfilled with anything but the empty sequence.
\<close>

theorem empty_candidates_give_empty_result:
  assumes "client (request (prompt symptoms [])) = Fulfilled response"
    and "response_text response = Some t"
    and "JSON_parse (trim t) = Inr j"
  shows "snd (getAiSuggestions (Some client) JSON_parse symptoms [] w) = Fulfilled [] \<and>
         (\<forall>ai' P' s' w' r. snd (getAiSuggestions ai' P' s' [] w') = Fulfilled r \<longrightarrow> r = [])"
proof
  show "snd (getAiSuggestions (Some client) JSON_parse symptoms [] w) = Fulfilled []"
  proof (cases "has_remedies_array j")
    case False
    with assms show ?thesis
      by (simp add: snd_getAiSuggestions_fulfilled process_response_no_array)
  next
    case True
    then obtain members elements where "j = JObject members"
      and "object_get members ''remedies'' = Some (JArray elements)"
      by (cases j rule: has_remedies_array.cases)
        (auto split: option.splits json.splits)
    with assms show ?thesis
      by (simp add: snd_getAiSuggestions_fulfilled process_response_array
          is_identifier_of_Nil)
  qed
  show "\<forall>ai' P' s' w' r. snd (getAiSuggestions ai' P' s' [] w') = Fulfilled r \<longrightarrow> r = []"
  proof (intro allI impI)
    fix ai' P' s' w' r
    assume f: "snd (getAiSuggestions ai' P' s' [] w') = Fulfilled r"
    show "r = []"
    proof (cases ai')
      case None
      with f show ?thesis by (simp add: getAiSuggestions_def)
    next
      case (Some c)
      with f show ?thesis
        by (cases "c (request (prompt s' []))")
          (auto simp: getAiSuggestions_configured Let_def catch_block_def
            split: if_splits dest: process_response_empty_candidates)
    qed
  qed
qed

text \<open>
  C8, an instance of the amended claim: the service names a remedy, but no candidate was
  passed.
\<close>

theorem empty_candidates_give_empty_result_witness:
  \<open>json_parse (trim ''{"remedies": ["ARN"]}'') =
     Inr (JObject [(''remedies'', JArray [JString ''ARN''])]) \<and>
   snd (getAiSuggestions (Some (answering ''{"remedies": ["ARN"]}'')) json_parse ''bruises'' []
          fresh_world) = Fulfilled []\<close>
proof -
  have a: \<open>answering ''{"remedies": ["ARN"]}'' (request (prompt ''bruises'' [])) =
           Fulfilled \<lparr>response_text = Some ''{"remedies": ["ARN"]}''\<rparr>\<close>
    by (simp add: answering_def)
  have t: \<open>response_text \<lparr>response_text = Some ''{"remedies": ["ARN"]}''\<rparr> =
           Some ''{"remedies": ["ARN"]}''\<close>
    by simp
  have p: \<open>json_parse (trim ''{"remedies": ["ARN"]}'') =
           Inr (JObject [(''remedies'', JArray [JString ''ARN''])])\<close>
    by code_simp
  show ?thesis
    using empty_candidates_give_empty_result [where
        client = \<open>answering ''{"remedies": ["ARN"]}''\<close> and symptoms = \<open>''bruises''\<close>
        and JSON_parse = json_parse and w = fresh_world, OF a t p] p
    by simp
qed

text \<open>
  C9: the result is not deduplicated. For every call whose parsed response array holds a
  candidate identifier several times, the result holds it as many times as the array does.
\<close>

theorem duplicates_are_kept:
  assumes "client (request (prompt symptoms remedies)) = Fulfilled response"
    and "response_text response = Some t"
    and "JSON_parse (trim t) = Inr (JObject members)"
    and "object_get members ''remedies'' = Some (JArray elements)"
    and "a \<in> identifier_set remedies"
  shows "\<exists>r. snd (getAiSuggestions (Some client) JSON_parse symptoms remedies w) = Fulfilled r \<and>
             count_list r (JString a) = count_list elements (JString a)"
  using assms
  by (simp add: snd_getAiSuggestions_fulfilled process_response_array count_list_filter)

text \<open>C9, an instance: \<open>ARN\<close> is returned twice and kept twice.\<close>

theorem duplicates_are_kept_witness:
  \<open>json_parse (trim ''{"remedies": ["ARN","BELL","ARN"]}'') =
     Inr (JObject [(''remedies'', JArray [JString ''ARN'', JString ''BELL'', JString ''ARN''])]) \<and>
   ''ARN'' \<in> identifier_set three_remedies \<and>
   (\<exists>r. snd (getAiSuggestions (Some (answering ''{"remedies": ["ARN","BELL","ARN"]}''))
                json_parse ''bruises'' three_remedies fresh_world) = Fulfilled r \<and>
        count_list r (JString ''ARN'') = 2)\<close>
proof -
  let ?elements = \<open>[JString ''ARN'', JString ''BELL'', JString ''ARN'']\<close>
  have a: \<open>answering ''{"remedies": ["ARN","BELL","ARN"]}''
             (request (prompt ''bruises'' three_remedies)) =
           Fulfilled \<lparr>response_text = Some ''{"remedies": ["ARN","BELL","ARN"]}''\<rparr>\<close>
    by (simp add: answering_def)
  have t: \<open>response_text \<lparr>response_text = Some ''{"remedies": ["ARN","BELL","ARN"]}''\<rparr> =
           Some ''{"remedies": ["ARN","BELL","ARN"]}''\<close>
    by simp
  have p: \<open>json_parse (trim ''{"remedies": ["ARN","BELL","ARN"]}'') =
           Inr (JObject [(''remedies'', JArray ?elements)])\<close>
    by code_simp
  have g: \<open>object_get [(''remedies'', JArray ?elements)] ''remedies'' = Some (JArray ?elements)\<close>
    by (simp add: object_get_def)
  have m: \<open>''ARN'' \<in> identifier_set three_remedies\<close>
    by (simp add: identifier_set_def three_remedies_def)
  show ?thesis
    using duplicates_are_kept [where
        client = \<open>answering ''{"remedies": ["ARN","BELL","ARN"]}''\<close>
        and symptoms = \<open>''bruises''\<close> and remedies = three_remedies
        and JSON_parse = json_parse and w = fresh_world, OF a t p g m] p m
    by (simp add: numeral_2_eq_2)
qed

text \<open>
  C10: whenever the call is rejected, it is rejected with an \<open>Error\<close> instance carrying one of
  three fixed messages, never with the value that was caught in the \<open>try\<close>; and a caught
  value that is not an \<open>Error\<close> instance gives the unknown-error message, which differs from
  the service-failure message.
\<close>

theorem surfaced_failures_are_fixed_errors:
  "(snd (getAiSuggestions ai JSON_parse symptoms remedies w) = Rejected x \<longrightarrow>
      instanceof_Error x \<and>
      (x = new_Error not_configured_message \<or> x = new_Error service_failure_message \<or>
       x = new_Error unknown_error_message)) \<and>
   (client (request (prompt symptoms remedies)) = Rejected e \<and> \<not> instanceof_Error e \<longrightarrow>
      snd (getAiSuggestions (Some client) JSON_parse symptoms remedies w) =
        Rejected (new_Error unknown_error_message)) \<and>
   unknown_error_message \<noteq> service_failure_message"
proof (intro conjI impI)
  assume r: "snd (getAiSuggestions ai JSON_parse symptoms remedies w) = Rejected x"
  then show "x = new_Error not_configured_message \<or> x = new_Error service_failure_message \<or>
       x = new_Error unknown_error_message"
    by (rule getAiSuggestions_outcome)
  then show "instanceof_Error x"
    by (auto simp: new_Error_def)
next
  assume "client (request (prompt symptoms remedies)) = Rejected e \<and> \<not> instanceof_Error e"
  then show "snd (getAiSuggestions (Some client) JSON_parse symptoms remedies w) =
        Rejected (new_Error unknown_error_message)"
    by (simp add: snd_getAiSuggestions_rejected)
next
  show "unknown_error_message \<noteq> service_failure_message"
    using messages_distinct(3) by simp
qed

text \<open>
  C10, an instance: the service call rejects with the string \<open>quota\<close>, which is not an
  \<open>Error\<close> instance.
\<close>

theorem surfaced_failures_are_fixed_errors_witness:
  "rejecting (Plain (JString ''quota'')) (request (prompt ''headache'' three_remedies)) =
     Rejected (Plain (JString ''quota'')) \<and>
   \<not> instanceof_Error (Plain (JString ''quota'')) \<and>
   snd (getAiSuggestions (Some (rejecting (Plain (JString ''quota'')))) json_parse ''headache''
          three_remedies fresh_world) = Rejected (new_Error unknown_error_message) \<and>
   instanceof_Error (new_Error unknown_error_message)"
proof -
  have a: "rejecting (Plain (JString ''quota'')) (request (prompt ''headache'' three_remedies)) =
     Rejected (Plain (JString ''quota''))"
    by (simp add: rejecting_def)
  have n: "\<not> instanceof_Error (Plain (JString ''quota''))"
    by simp
  note th = surfaced_failures_are_fixed_errors [where ai = "Some (rejecting (Plain (JString ''quota'')))"
      and client = "rejecting (Plain (JString ''quota''))" and e = "Plain (JString ''quota'')"
      and x = "new_Error unknown_error_message"
      and JSON_parse = json_parse and symptoms = "''headache''" and remedies = three_remedies
      and w = fresh_world]
  from th a n have r: "snd (getAiSuggestions (Some (rejecting (Plain (JString ''quota''))))
      json_parse ''headache'' three_remedies fresh_world) = Rejected (new_Error unknown_error_message)"
    by blast
  with th have "instanceof_Error (new_Error unknown_error_message)"
    by blast
  with a n r show ?thesis by blast
qed

end
